theory Spec2Isabelle
  imports Main
begin

section \<open>Python values, exceptions and truth tests\<close>

text \<open>
  The two helper classes of the agent platform, \<^verbatim>\<open>agents/shared/database.py\<close>
  (class \<^verbatim>\<open>Database\<close>) and \<^verbatim>\<open>agents/shared/claude_client.py\<close> (class
  \<^verbatim>\<open>ClaudeClient\<close>), are embedded as state-passing functions. Each method takes the
  object and the world and returns its outcome together with the updated object and world.
  An exception is the left injection of the outcome.

  An exception is recorded with the name of its Python class and its message. Both
  classes re-raise what they catch with a bare \<^verbatim>\<open>raise\<close>, so the class of the
  exception that reaches the caller is the class the failing call raised.
\<close>

datatype exn = PyExn (exn_class: string) (exn_msg: string)

datatype pyval = PNone | PStr string | PInt int

text \<open>
  A row of a \<^verbatim>\<open>RealDictCursor\<close> is a dictionary from column names to values, kept as
  an association list in insertion order.
\<close>

type_synonym row = "(string \<times> pyval) list"

text \<open>
  Storing under a key in a dictionary: a key already there keeps its place and takes the
  new value, a new key goes to the end.
\<close>

fun dict_set :: "('k \<times> 'v) list \<Rightarrow> 'k \<Rightarrow> 'v \<Rightarrow> ('k \<times> 'v) list" where
  "dict_set [] k v = [(k, v)]"
| "dict_set ((k', v') # kvs) k v =
     (if k' = k then (k, v) # kvs else (k', v') # dict_set kvs k v)"

text \<open>
  The row a \<^verbatim>\<open>RealDictCursor\<close> builds from one result tuple: the values are stored
  one after the other under the column names of \<^verbatim>\<open>cursor.description\<close>.
\<close>

definition real_dict_row :: "string list \<Rightarrow> pyval list \<Rightarrow> row" where
  "real_dict_row cols vs = foldl (\<lambda>d (k, v). dict_set d k v) [] (zip cols vs)"

text \<open>
  Python's truth test, as \<^verbatim>\<open>if self.tenant_id:\<close> and \<^verbatim>\<open>if system:\<close> apply it to an
  optional string: \<^verbatim>\<open>None\<close> and the empty string are false.
\<close>

fun str_truthy :: "string option \<Rightarrow> bool" where
  "str_truthy None = False"
| "str_truthy (Some s) = (s \<noteq> [])"

text \<open>
  The truth test of \<^verbatim>\<open>if cursor.description:\<close>. The DB-API attribute is \<^verbatim>\<open>None\<close>
  or a sequence with one entry per result column (here: the column names); \<^verbatim>\<open>None\<close>
  and the empty sequence are false.
\<close>

fun description_truthy :: "string list option \<Rightarrow> bool" where
  "description_truthy None = False"
| "description_truthy (Some cols) = (cols \<noteq> [])"

section \<open>The world: driver state, calls issued, standard output\<close>

text \<open>
  \<^verbatim>\<open>connect\<close> passes five settings of the process environment to
  \<^verbatim>\<open>psycopg2.connect\<close>; \<^verbatim>\<open>os.getenv('DB_PORT', 5432)\<close> is the string of the
  environment or the integer 5432. The sixth argument is the constant
  \<^verbatim>\<open>cursor_factory=RealDictCursor\<close>: every cursor of the connection is a
  \<^verbatim>\<open>RealDictCursor\<close>.
\<close>

datatype cursor_factory = DefaultCursor | RealDictCursor

record conn_params =
  cp_host :: "string option"
  cp_port :: pyval
  cp_dbname :: "string option"
  cp_user :: "string option"
  cp_password :: "string option"
  cp_cursor_factory :: cursor_factory

definition conn_params_of :: "(string \<Rightarrow> string option) \<Rightarrow> conn_params" where
  "conn_params_of getenv =
     \<lparr> cp_host = getenv ''DB_HOST'',
       cp_port = (case getenv ''DB_PORT'' of None \<Rightarrow> PInt 5432 | Some p \<Rightarrow> PStr p),
       cp_dbname = getenv ''DB_NAME'',
       cp_user = getenv ''DB_USER'',
       cp_password = getenv ''DB_PASSWORD'',
       cp_cursor_factory = RealDictCursor \<rparr>"

text \<open>
  The calls the class makes on the database driver, in the order made. The query text
  and the parameter tuple of \<^verbatim>\<open>cursor.execute\<close> are two separate arguments.
\<close>

datatype call =
    CConnect conn_params
  | CCursor
  | CExecute string "pyval list option"
  | CFetchall
  | CCommit
  | CCursorClose
  | CClose



text \<open>The lines the two classes print, without their decoration.\<close>

datatype msg =
    MsgConnected "string option"
  | MsgConnFailed exn
  | MsgClosed
  | MsgApiError exn

record 'd world =
  dstate :: 'd
  calls :: "call list"
  stdout :: "msg list"

text \<open>
  The driver is a parameter: \<^verbatim>\<open>psycopg2\<close> is not part of the repository. Each
  operation acts on the driver's own state \<open>'d\<close> and either raises or returns;
  \<open>'h\<close> is the type of connection objects and \<open>'c\<close> of cursor objects. Fetching
  gives the result tuples as the server sent them, one list of values per row.
\<close>

record ('d, 'h, 'c) driver =
  drv_connect :: "conn_params \<Rightarrow> 'd \<Rightarrow> (exn + 'h) \<times> 'd"
  drv_cursor :: "'h \<Rightarrow> 'd \<Rightarrow> (exn + 'c) \<times> 'd"
  drv_execute :: "'c \<Rightarrow> string \<Rightarrow> pyval list option \<Rightarrow> 'd \<Rightarrow> (exn + unit) \<times> 'd"
  drv_description :: "'c \<Rightarrow> 'd \<Rightarrow> string list option"
  drv_fetchall :: "'c \<Rightarrow> 'd \<Rightarrow> (exn + pyval list list) \<times> 'd"
  drv_cursor_close :: "'c \<Rightarrow> 'd \<Rightarrow> (exn + unit) \<times> 'd"
  drv_commit :: "'h \<Rightarrow> 'd \<Rightarrow> (exn + unit) \<times> 'd"
  drv_close :: "'h \<Rightarrow> 'd \<Rightarrow> (exn + unit) \<times> 'd"

text \<open>A driver call is appended to the list of calls whether it raises or not.\<close>

definition call_drv :: "call \<Rightarrow> ('d \<Rightarrow> 'r \<times> 'd) \<Rightarrow> 'd world \<Rightarrow> 'r \<times> 'd world" where
  "call_drv c f w =
     (case f (dstate w) of (r, d') \<Rightarrow> (r, w\<lparr>dstate := d', calls := calls w @ [c]\<rparr>))"

definition py_print :: "msg \<Rightarrow> 'd world \<Rightarrow> 'd world" where
  "py_print m w = w\<lparr>stdout := stdout w @ [m]\<rparr>"

text \<open>
  \<^verbatim>\<open>with self.connection.cursor() as cursor: body\<close>. The cursor's \<^verbatim>\<open>__exit__\<close>
  closes it on every exit of the body and does not suppress an exception of the body; an
  exception raised by the closing itself replaces the body's outcome.
\<close>

definition with_cursor ::
  "('d, 'h, 'c) driver \<Rightarrow> 'h \<Rightarrow> ('c \<Rightarrow> 'd world \<Rightarrow> (exn + 'a) \<times> 'd world) \<Rightarrow>
     'd world \<Rightarrow> (exn + 'a) \<times> 'd world" where
  "with_cursor drv h body w =
     (case call_drv CCursor (drv_cursor drv h) w of
        (Inl e, w1) \<Rightarrow> (Inl e, w1)
      | (Inr c, w1) \<Rightarrow>
          (case body c w1 of
             (r, w2) \<Rightarrow>
               (case call_drv CCursorClose (drv_cursor_close drv c) w2 of
                  (Inl e, w3) \<Rightarrow> (Inl e, w3)
                | (Inr u, w3) \<Rightarrow> (r, w3))))"

text \<open>
  \<^verbatim>\<open>cursor.fetchall()\<close> on a cursor of a connection made with
  \<^verbatim>\<open>cursor_factory=RealDictCursor\<close>: every result tuple is returned as the dictionary
  from the column names of \<^verbatim>\<open>cursor.description\<close> to its values, the rows in the
  order of the result.
\<close>

definition cursor_fetchall ::
  "('d, 'h, 'c) driver \<Rightarrow> 'c \<Rightarrow> 'd world \<Rightarrow> (exn + row list) \<times> 'd world" where
  "cursor_fetchall drv c w =
     (case call_drv CFetchall (drv_fetchall drv c) w of
        (Inl e, w') \<Rightarrow> (Inl e, w')
      | (Inr tuples, w') \<Rightarrow>
          (Inr (map (real_dict_row
                       (case drv_description drv c (dstate w) of
                          None \<Rightarrow> []
                        | Some cols \<Rightarrow> cols))
                  tuples), w'))"

section \<open>Class Database\<close>

record 'h database =
  tenant_id :: "string option"
  connection :: "'h option"

definition Database_init :: "string option \<Rightarrow> 'h database" where
  "Database_init tenant = \<lparr> tenant_id = tenant, connection = None \<rparr>"

definition tenant_statement :: string where
  "tenant_statement = ''SET app.tenant_id = %s''"

text \<open>
  The body of the \<^verbatim>\<open>try\<close> block of \<^verbatim>\<open>connect\<close>: the handshake, the assignment to
  \<^verbatim>\<open>self.connection\<close>, the tenant statement under the truth test of
  \<^verbatim>\<open>self.tenant_id\<close>, and the success line.
\<close>

definition connect_body ::
  "('d, 'h, 'c) driver \<Rightarrow> (string \<Rightarrow> string option) \<Rightarrow> 'h database \<Rightarrow> 'd world \<Rightarrow>
     (exn + unit) \<times> 'h database \<times> 'd world" where
  "connect_body drv getenv self w =
     (case call_drv (CConnect (conn_params_of getenv))
             (drv_connect drv (conn_params_of getenv)) w of
        (Inl e, w1) \<Rightarrow> (Inl e, self, w1)
      | (Inr h, w1) \<Rightarrow>
          (case (case tenant_id self of
                   None \<Rightarrow> (Inr (), w1)
                 | Some t \<Rightarrow>
                     if str_truthy (Some t)
                     then with_cursor drv h
                            (\<lambda>c. call_drv (CExecute tenant_statement (Some [PStr t]))
                                   (drv_execute drv c tenant_statement (Some [PStr t]))) w1
                     else (Inr (), w1)) of
             (Inl e, w2) \<Rightarrow> (Inl e, self\<lparr>connection := Some h\<rparr>, w2)
           | (Inr u, w2) \<Rightarrow>
               (Inr (), self\<lparr>connection := Some h\<rparr>,
                py_print (MsgConnected (getenv ''DB_NAME'')) w2)))"

text \<open>
  \<^verbatim>\<open>connect\<close>: the handler prints the failure line and re-raises the exception it
  caught. Nothing in the handler touches \<^verbatim>\<open>self.connection\<close>.
\<close>

definition Database_connect ::
  "('d, 'h, 'c) driver \<Rightarrow> (string \<Rightarrow> string option) \<Rightarrow> 'h database \<Rightarrow> 'd world \<Rightarrow>
     (exn + unit) \<times> 'h database \<times> 'd world" where
  "Database_connect drv getenv self w =
     (case connect_body drv getenv self w of
        (Inl e, self', w') \<Rightarrow> (Inl e, self', py_print (MsgConnFailed e) w')
      | (Inr u, self', w') \<Rightarrow> (Inr u, self', w'))"

text \<open>
  \<^verbatim>\<open>execute\<close>. On an object whose \<^verbatim>\<open>connection\<close> is \<^verbatim>\<open>None\<close> the attribute
  access \<^verbatim>\<open>self.connection.cursor\<close> raises \<^verbatim>\<open>AttributeError\<close>.
\<close>

definition Database_execute ::
  "('d, 'h, 'c) driver \<Rightarrow> 'h database \<Rightarrow> string \<Rightarrow> pyval list option \<Rightarrow> 'd world \<Rightarrow>
     (exn + row list) \<times> 'd world" where
  "Database_execute drv self query params w =
     (case connection self of
        None \<Rightarrow> (Inl (PyExn ''AttributeError'' ''NoneType object has no attribute cursor''), w)
      | Some h \<Rightarrow>
          with_cursor drv h
            (\<lambda>c w1.
               case call_drv (CExecute query params) (drv_execute drv c query params) w1 of
                 (Inl e, w2) \<Rightarrow> (Inl e, w2)
               | (Inr u, w2) \<Rightarrow>
                   if description_truthy (drv_description drv c (dstate w2))
                   then cursor_fetchall drv c w2
                   else (case call_drv CCommit (drv_commit drv h) w2 of
                           (Inl e, w3) \<Rightarrow> (Inl e, w3)
                         | (Inr u', w3) \<Rightarrow> (Inr [], w3)))
            w)"

text \<open>\<^verbatim>\<open>close\<close> leaves \<^verbatim>\<open>self.connection\<close> as it is.\<close>

definition Database_close ::
  "('d, 'h, 'c) driver \<Rightarrow> 'h database \<Rightarrow> 'd world \<Rightarrow> (exn + unit) \<times> 'd world" where
  "Database_close drv self w =
     (case connection self of
        None \<Rightarrow> (Inr (), w)
      | Some h \<Rightarrow>
          (case call_drv CClose (drv_close drv h) w of
             (Inl e, w1) \<Rightarrow> (Inl e, w1)
           | (Inr u, w1) \<Rightarrow> (Inr (), py_print MsgClosed w1)))"

definition Database_enter ::
  "('d, 'h, 'c) driver \<Rightarrow> (string \<Rightarrow> string option) \<Rightarrow> 'h database \<Rightarrow> 'd world \<Rightarrow>
     (exn + unit) \<times> 'h database \<times> 'd world" where
  "Database_enter drv getenv self w = Database_connect drv getenv self w"

text \<open>\<^verbatim>\<open>__exit__\<close> ignores its three arguments and returns \<^verbatim>\<open>None\<close>.\<close>

definition Database_exit ::
  "('d, 'h, 'c) driver \<Rightarrow> 'h database \<Rightarrow> 'd world \<Rightarrow> (exn + unit) \<times> 'd world" where
  "Database_exit drv self w = Database_close drv self w"

text \<open>
  \<^verbatim>\<open>with Database(tenant) as db: body\<close>, the form \<^verbatim>\<open>run_health_check\<close> uses. Python
  runs \<^verbatim>\<open>__exit__\<close> only after \<^verbatim>\<open>__enter__\<close> has returned; \<^verbatim>\<open>__exit__\<close> returns
  \<^verbatim>\<open>None\<close>, so an exception of the body propagates after it, and an exception raised by
  \<^verbatim>\<open>__exit__\<close> replaces the body's outcome. The body is given the object and returns it
  as it has left it: a body may assign the object's attributes, as one that calls
  \<^verbatim>\<open>db.connect()\<close> again does, and \<^verbatim>\<open>__exit__\<close> runs on the object as left.
\<close>

definition with_Database ::
  "('d, 'h, 'c) driver \<Rightarrow> (string \<Rightarrow> string option) \<Rightarrow> string option \<Rightarrow>
     ('h database \<Rightarrow> 'd world \<Rightarrow> (exn + 'a) \<times> 'h database \<times> 'd world) \<Rightarrow> 'd world \<Rightarrow>
     (exn + 'a) \<times> 'd world" where
  "with_Database drv getenv tenant body w =
     (case Database_enter drv getenv (Database_init tenant) w of
        (Inl e, db, w1) \<Rightarrow> (Inl e, w1)
      | (Inr u, db, w1) \<Rightarrow>
          (case body db w1 of
             (r, db2, w2) \<Rightarrow>
               (case Database_exit drv db2 w2 of
                  (Inl e, w3) \<Rightarrow> (Inl e, w3)
                | (Inr u', w3) \<Rightarrow> (r, w3))))"

text \<open>A body that runs one query on the object and leaves the object as it is.\<close>

definition query_body ::
  "('d, 'h, 'c) driver \<Rightarrow> string \<Rightarrow> pyval list option \<Rightarrow> 'h database \<Rightarrow> 'd world \<Rightarrow>
     (exn + row list) \<times> 'h database \<times> 'd world" where
  "query_body drv query params db w =
     (case Database_execute drv db query params w of (r, w') \<Rightarrow> (r, db, w'))"

section \<open>Class ClaudeClient\<close>

text \<open>
  JSON values as \<^verbatim>\<open>json.loads\<close> returns them and \<^verbatim>\<open>json.dumps\<close> takes them: a
  Python \<^verbatim>\<open>dict\<close> is an association list in insertion order, its keys distinct.
  Numbers are the integers; the methods never compute with a number.
\<close>

datatype json =
    JNull
  | JBool bool
  | JNum int
  | JStr string
  | JArr "json list"
  | JObj "(string \<times> json) list"

text \<open>
  Python's subscript \<^verbatim>\<open>v[key]\<close> with a string key: a \<^verbatim>\<open>dict\<close> looks the key up and
  raises \<^verbatim>\<open>KeyError\<close> when it is missing, every other JSON value raises
  \<^verbatim>\<open>TypeError\<close>.
\<close>

fun py_getitem_str :: "json \<Rightarrow> string \<Rightarrow> exn + json" where
  "py_getitem_str (JObj kvs) k =
     (case map_of kvs k of None \<Rightarrow> Inl (PyExn ''KeyError'' k) | Some v \<Rightarrow> Inr v)"
| "py_getitem_str (JArr xs) k =
     Inl (PyExn ''TypeError'' ''list indices must be integers or slices, not str'')"
| "py_getitem_str (JStr s) k =
     Inl (PyExn ''TypeError'' ''string indices must be integers'')"
| "py_getitem_str v k = Inl (PyExn ''TypeError'' ''object is not subscriptable'')"

text \<open>
  Python's subscript \<^verbatim>\<open>v[0]\<close>: the first element of a list or the first character of a
  string, \<^verbatim>\<open>IndexError\<close> when there is none; a \<^verbatim>\<open>dict\<close> from JSON has string keys
  only, so the key \<^verbatim>\<open>0\<close> is missing.
\<close>

fun py_getitem_0 :: "json \<Rightarrow> exn + json" where
  "py_getitem_0 (JArr []) = Inl (PyExn ''IndexError'' ''list index out of range'')"
| "py_getitem_0 (JArr (x # xs)) = Inr x"
| "py_getitem_0 (JStr []) = Inl (PyExn ''IndexError'' ''string index out of range'')"
| "py_getitem_0 (JStr (c # cs)) = Inr (JStr [c])"
| "py_getitem_0 (JObj kvs) = Inl (PyExn ''KeyError'' ''0'')"
| "py_getitem_0 v = Inl (PyExn ''TypeError'' ''object is not subscriptable'')"

text \<open>A message is a \<^verbatim>\<open>Dict[str, str]\<close>.\<close>

type_synonym message = "(string \<times> string) list"

definition message_json :: "message \<Rightarrow> json" where
  "message_json m = JObj (map (\<lambda>(k, v). (k, JStr v)) m)"

text \<open>
  The Bedrock runtime client and the \<^verbatim>\<open>json\<close> module are parameters. \<open>'b\<close> is the
  type of encoded bodies; \<^verbatim>\<open>invoke_model\<close> stands for the call together with
  \<^verbatim>\<open>response['body'].read()\<close> and either raises or returns the encoded response.
\<close>

record ('t, 'b) bedrock =
  invoke_model :: "string \<Rightarrow> 'b \<Rightarrow> 't \<Rightarrow> (exn + 'b) \<times> 't"
  json_dumps :: "json \<Rightarrow> 'b"
  json_loads :: "'b \<Rightarrow> exn + json"

record ('t, 'b) relay_world =
  rstate :: 't
  requests :: "(string \<times> 'b) list"
  rstdout :: "msg list"

text \<open>
  The object keeps the model identifier; its \<^verbatim>\<open>client\<close> attribute, the Bedrock
  runtime client that \<^verbatim>\<open>boto3.client\<close> returns, is the parameter of type
  \<open>bedrock\<close> that every method takes.
\<close>

record claude_client =
  model_id :: string

definition ClaudeClient_init :: "(string \<Rightarrow> string option) \<Rightarrow> claude_client" where
  "ClaudeClient_init getenv =
     \<lparr> model_id = (case getenv ''CLAUDE_MODEL_ID'' of
                     None \<Rightarrow> ''anthropic.claude-3-5-sonnet-20241022-v2:0''
                   | Some m \<Rightarrow> m) \<rparr>"

definition call_invoke ::
  "('t, 'b) bedrock \<Rightarrow> string \<Rightarrow> 'b \<Rightarrow> ('t, 'b) relay_world \<Rightarrow>
     (exn + 'b) \<times> ('t, 'b) relay_world" where
  "call_invoke bk m b w =
     (case invoke_model bk m b (rstate w) of
        (r, t') \<Rightarrow> (r, w\<lparr>rstate := t', requests := requests w @ [(m, b)]\<rparr>))"

text \<open>
  The dictionary \<^verbatim>\<open>request_body\<close>: three entries, and \<^verbatim>\<open>"system"\<close> after them under
  the truth test \<^verbatim>\<open>if system:\<close>.
\<close>

definition request_body :: "message list \<Rightarrow> string option \<Rightarrow> int \<Rightarrow> (string \<times> json) list" where
  "request_body messages system max_tokens =
     [(''anthropic_version'', JStr ''bedrock-2023-05-31''),
      (''max_tokens'', JNum max_tokens),
      (''messages'', JArr (map message_json messages))]
     @ (case system of
          None \<Rightarrow> []
        | Some s \<Rightarrow> if str_truthy (Some s) then [(''system'', JStr s)] else [])"

text \<open>\<^verbatim>\<open>response_body['content'][0]['text']\<close>.\<close>

definition extract_text :: "json \<Rightarrow> exn + json" where
  "extract_text response_body =
     (case py_getitem_str response_body ''content'' of
        Inl e \<Rightarrow> Inl e
      | Inr content \<Rightarrow>
          (case py_getitem_0 content of
             Inl e \<Rightarrow> Inl e
           | Inr block \<Rightarrow> py_getitem_str block ''text''))"

text \<open>The body of the \<^verbatim>\<open>try\<close> block of \<^verbatim>\<open>send_message\<close>.\<close>

definition send_message_body ::
  "('t, 'b) bedrock \<Rightarrow> claude_client \<Rightarrow> message list \<Rightarrow> string option \<Rightarrow> int \<Rightarrow>
     ('t, 'b) relay_world \<Rightarrow> (exn + json) \<times> ('t, 'b) relay_world" where
  "send_message_body bk self messages system max_tokens w =
     (case call_invoke bk (model_id self)
             (json_dumps bk (JObj (request_body messages system max_tokens))) w of
        (Inl e, w1) \<Rightarrow> (Inl e, w1)
      | (Inr raw, w1) \<Rightarrow>
          (case json_loads bk raw of
             Inl e \<Rightarrow> (Inl e, w1)
           | Inr response_body \<Rightarrow> (extract_text response_body, w1)))"

text \<open>
  \<^verbatim>\<open>send_message\<close>: the handler prints the error line and re-raises. The value
  returned is whatever JSON value the \<^verbatim>\<open>text\<close> entry holds.
\<close>

definition ClaudeClient_send_message ::
  "('t, 'b) bedrock \<Rightarrow> claude_client \<Rightarrow> message list \<Rightarrow> string option \<Rightarrow> int \<Rightarrow>
     ('t, 'b) relay_world \<Rightarrow> (exn + json) \<times> ('t, 'b) relay_world" where
  "ClaudeClient_send_message bk self messages system max_tokens w =
     (case send_message_body bk self messages system max_tokens w of
        (Inl e, w') \<Rightarrow> (Inl e, w'\<lparr>rstdout := rstdout w' @ [MsgApiError e]\<rparr>)
      | (Inr v, w') \<Rightarrow> (Inr v, w'))"

text \<open>The default of the parameter \<^verbatim>\<open>max_tokens\<close>.\<close>

definition default_max_tokens :: int where
  "default_max_tokens = 1024"

definition ClaudeClient_chat ::
  "('t, 'b) bedrock \<Rightarrow> claude_client \<Rightarrow> string \<Rightarrow> string option \<Rightarrow>
     ('t, 'b) relay_world \<Rightarrow> (exn + json) \<times> ('t, 'b) relay_world" where
  "ClaudeClient_chat bk self user_message system w =
     ClaudeClient_send_message bk self
       [[(''role'', ''user''), (''content'', user_message)]] system default_max_tokens w"

section \<open>A reference environment\<close>

text \<open>
  One concrete driver and one concrete relay backend, on which the methods can be run.
  The driver keeps what a single PostgreSQL session needs here: whether the server
  accepts the handshake, whether the connection is open, the session variable
  \<^verbatim>\<open>app.tenant_id\<close>, and the result of the last statement. It knows three
  statements, the tenant statement of \<^verbatim>\<open>connect\<close>, \<^verbatim>\<open>SHOW app.tenant_id\<close>, and the
  \<^verbatim>\<open>SELECT\<close> with an empty target list, whose result is one row without columns and
  whose description is the empty sequence; it takes every other text for a syntax error.
  As
  \<^verbatim>\<open>psycopg2\<close> does, it refuses a string parameter that contains a NUL character,
  refuses every use of a closed connection except closing it again, and lets
  \<^verbatim>\<open>close\<close> be repeated.
\<close>

record pg_state =
  pg_reachable :: bool
  pg_open :: bool
  pg_tag :: "string option"
  pg_description :: "string list option"
  pg_rows :: "pyval list list"

definition closed_error :: exn where
  "closed_error = PyExn ''InterfaceError'' ''connection already closed''"

definition pg_connect :: "conn_params \<Rightarrow> pg_state \<Rightarrow> (exn + nat) \<times> pg_state" where
  "pg_connect ps d =
     (if pg_reachable d
      then (Inr 0, d\<lparr>pg_open := True, pg_tag := None, pg_description := None, pg_rows := []\<rparr>)
      else (Inl (PyExn ''OperationalError'' ''could not connect to server''), d))"

definition pg_cursor :: "nat \<Rightarrow> pg_state \<Rightarrow> (exn + nat) \<times> pg_state" where
  "pg_cursor h d =
     (if pg_open d then (Inr 0, d\<lparr>pg_description := None, pg_rows := []\<rparr>)
      else (Inl closed_error, d))"

definition pg_execute ::
  "nat \<Rightarrow> string \<Rightarrow> pyval list option \<Rightarrow> pg_state \<Rightarrow> (exn + unit) \<times> pg_state" where
  "pg_execute c q ps d =
     (if \<not> pg_open d then (Inl closed_error, d)
      else if q = tenant_statement then
        (case ps of
           Some [PStr t] \<Rightarrow>
             if CHR 0x00 \<in> set t
             then (Inl (PyExn ''ValueError''
                     ''A string literal cannot contain NUL (0x00) characters.''), d)
             else (Inr (), d\<lparr>pg_tag := Some t, pg_description := None, pg_rows := []\<rparr>)
         | _ \<Rightarrow> (Inl (PyExn ''ProgrammingError'' ''syntax error''), d))
      else if q = ''SHOW app.tenant_id'' then
        (case pg_tag d of
           None \<Rightarrow> (Inl (PyExn ''ProgrammingError''
                      ''unrecognized configuration parameter''), d)
         | Some t \<Rightarrow>
             (Inr (), d\<lparr>pg_description := Some [''app.tenant_id''],
                        pg_rows := [[PStr t]]\<rparr>))
      else if q = ''SELECT'' then (Inr (), d\<lparr>pg_description := Some [], pg_rows := [[]]\<rparr>)
      else (Inl (PyExn ''ProgrammingError'' ''syntax error''), d))"

definition pg_fetchall :: "nat \<Rightarrow> pg_state \<Rightarrow> (exn + pyval list list) \<times> pg_state" where
  "pg_fetchall c d =
     (case pg_description d of
        None \<Rightarrow> (Inl (PyExn ''ProgrammingError'' ''no results to fetch''), d)
      | Some cols \<Rightarrow> (Inr (pg_rows d), d\<lparr>pg_rows := []\<rparr>))"

definition pg_commit :: "nat \<Rightarrow> pg_state \<Rightarrow> (exn + unit) \<times> pg_state" where
  "pg_commit h d = (if pg_open d then (Inr (), d) else (Inl closed_error, d))"

definition pg_driver :: "(pg_state, nat, nat) driver" where
  "pg_driver =
     \<lparr> drv_connect = pg_connect,
       drv_cursor = pg_cursor,
       drv_execute = pg_execute,
       drv_description = (\<lambda>c d. pg_description d),
       drv_fetchall = pg_fetchall,
       drv_cursor_close = (\<lambda>c d. (Inr (), d)),
       drv_commit = pg_commit,
       drv_close = (\<lambda>h d. (Inr (), d\<lparr>pg_open := False\<rparr>)) \<rparr>"

definition pg_world :: "bool \<Rightarrow> pg_state world" where
  "pg_world up =
     \<lparr> dstate = \<lparr> pg_reachable = up, pg_open = False, pg_tag = None,
                  pg_description = None, pg_rows = [] \<rparr>,
       calls = [], stdout = [] \<rparr>"

definition demo_getenv :: "string \<Rightarrow> string option" where
  "demo_getenv name =
     (if name = ''DB_HOST'' then Some ''localhost''
      else if name = ''DB_NAME'' then Some ''agents''
      else if name = ''DB_USER'' then Some ''butler''
      else None)"

text \<open>
  The relay backend answers every request with the outcome held in its state; bodies are
  JSON values themselves, so encoding and decoding are the identity.
\<close>

definition stub_bedrock :: "(exn + json, json) bedrock" where
  "stub_bedrock =
     \<lparr> invoke_model = (\<lambda>m b t. (t, t)),
       json_dumps = (\<lambda>j. j),
       json_loads = (\<lambda>b. Inr b) \<rparr>"

definition stub_world :: "exn + json \<Rightarrow> (exn + json, json) relay_world" where
  "stub_world answer = \<lparr> rstate = answer, requests = [], rstdout = [] \<rparr>"

text \<open>
  A session of the reference driver opened for tenant \<^verbatim>\<open>customer-001\<close>, the default
  tenant of the Butler agent, and a well-formed response of the relay.
\<close>

definition demo_db :: "nat database" where
  "demo_db = \<lparr>tenant_id = Some ''customer-001'', connection = Some 0\<rparr>"

definition demo_session :: "pg_state world" where
  "demo_session =
     snd (snd (Database_connect pg_driver demo_getenv (Database_init (Some ''customer-001''))
                 (pg_world True)))"

definition demo_response :: json where
  "demo_response =
     JObj [(''content'', JArr [JObj [(''type'', JStr ''text''), (''text'', JStr ''OK'')]])]"

section \<open>The convenience form as the specification words it\<close>

text \<open>
  The specification describes \<^verbatim>\<open>chat\<close> as wrapping the user text into a single-turn
  message sequence with role \<^verbatim>\<open>user\<close> and delegating to \<^verbatim>\<open>send\<close>, whose token bound
  defaults to 1024.
\<close>

definition single_turn :: "string \<Rightarrow> message list" where
  "single_turn user_text = [[(''role'', ''user''), (''content'', user_text)]]"

definition chat_spec ::
  "('t, 'b) bedrock \<Rightarrow> claude_client \<Rightarrow> string \<Rightarrow> string option \<Rightarrow>
     ('t, 'b) relay_world \<Rightarrow> (exn + json) \<times> ('t, 'b) relay_world" where
  "chat_spec bk self user_text system_instruction w =
     ClaudeClient_send_message bk self (single_turn user_text) system_instruction 1024 w"

section \<open>Basic facts\<close>

lemmas database_defs =
  Database_connect_def connect_body_def Database_execute_def Database_close_def
  Database_enter_def Database_exit_def with_Database_def with_cursor_def call_drv_def
  py_print_def Database_init_def cursor_fetchall_def real_dict_row_def query_body_def

lemmas pg_defs =
  pg_driver_def pg_connect_def pg_cursor_def pg_execute_def pg_fetchall_def pg_commit_def
  pg_world_def closed_error_def tenant_statement_def demo_getenv_def conn_params_of_def

lemmas relay_defs =
  ClaudeClient_chat_def ClaudeClient_send_message_def send_message_body_def call_invoke_def
  request_body_def message_json_def default_max_tokens_def

lemma demo_connect:
  "Database_connect pg_driver demo_getenv (Database_init (Some ''customer-001'')) (pg_world True)
     = (Inr (), demo_db, demo_session)"
  by (simp add: demo_db_def demo_session_def database_defs pg_defs)

lemma demo_session_eq:
  "demo_session =
     \<lparr> dstate = \<lparr> pg_reachable = True, pg_open = True, pg_tag = Some ''customer-001'',
                  pg_description = None, pg_rows = [] \<rparr>,
       calls = [CConnect (conn_params_of demo_getenv), CCursor,
                CExecute tenant_statement (Some [PStr ''customer-001'']), CCursorClose],
       stdout = [MsgConnected (Some ''agents'')] \<rparr>"
  by (simp add: demo_session_def database_defs pg_defs)
















text \<open>
  The shape of a response body from which \<^verbatim>\<open>['content'][0]['text']\<close> yields a value:
  a dictionary whose \<^verbatim>\<open>content\<close> is a list, whose first element is a dictionary with a
  \<^verbatim>\<open>text\<close> entry.
\<close>

lemma extract_text_shape:
  "extract_text response_body = Inr v \<longleftrightarrow>
     (\<exists>kvs bkvs blocks. response_body = JObj kvs
        \<and> map_of kvs ''content'' = Some (JArr (JObj bkvs # blocks))
        \<and> map_of bkvs ''text'' = Some v)"
proof
  assume a: "extract_text response_body = Inr v"
  then obtain content block where
    c: "py_getitem_str response_body ''content'' = Inr content" and
    b: "py_getitem_0 content = Inr block" and
    t: "py_getitem_str block ''text'' = Inr v"
    by (auto simp: extract_text_def split: sum.splits)
  from c obtain kvs where k: "response_body = JObj kvs" "map_of kvs ''content'' = Some content"
    by (cases response_body) (auto split: option.splits)
  from t obtain bkvs where bk: "block = JObj bkvs" "map_of bkvs ''text'' = Some v"
    by (cases block) (auto split: option.splits)
  from b bk obtain blocks where "content = JArr (JObj bkvs # blocks)"
    by (cases content rule: py_getitem_0.cases) auto
  with k bk show "\<exists>kvs bkvs blocks. response_body = JObj kvs
        \<and> map_of kvs ''content'' = Some (JArr (JObj bkvs # blocks))
        \<and> map_of bkvs ''text'' = Some v"
    by blast
next
  assume "\<exists>kvs bkvs blocks. response_body = JObj kvs
        \<and> map_of kvs ''content'' = Some (JArr (JObj bkvs # blocks))
        \<and> map_of bkvs ''text'' = Some v"
  then show "extract_text response_body = Inr v"
    by (auto simp: extract_text_def)
qed

section \<open>Opening a connection\<close>

text \<open>
  C1 (as amended). For every non-empty tenant identifier \<open>T\<close>: when opening a Connection
  with tenant \<open>T\<close> returns, it has made exactly four driver calls, the handshake, the
  creation of a cursor, the single statement \<^verbatim>\<open>SET app.tenant_id = %s\<close> with the
  parameter tuple \<open>(T,)\<close>, and the closing of the cursor; and on the reference driver the
  session tag then is \<open>T\<close> and querying it at once returns \<open>T\<close>. The truth test
  \<^verbatim>\<open>if self.tenant_id:\<close> excludes the empty identifier, for which no statement is
  issued.
\<close>

theorem connect_sets_tenant_tag:
  assumes "T \<noteq> []"
  shows "(Database_connect drv getenv (Database_init (Some T)) w = (Inr u, db, w') \<longrightarrow>
            calls w' = calls w @ [CConnect (conn_params_of getenv), CCursor,
                                   CExecute ''SET app.tenant_id = %s'' (Some [PStr T]),
                                   CCursorClose])
       \<and> (Database_connect pg_driver getenv (Database_init (Some T)) wa = (Inr ua, dba, wb) \<longrightarrow>
            pg_tag (dstate wb) = Some T
          \<and> fst (Database_execute pg_driver dba ''SHOW app.tenant_id'' None wb)
              = Inr [[(''app.tenant_id'', PStr T)]])"
proof (intro conjI impI)
  assume "Database_connect drv getenv (Database_init (Some T)) w = (Inr u, db, w')"
  with assms show "calls w' = calls w @ [CConnect (conn_params_of getenv), CCursor,
                                   CExecute ''SET app.tenant_id = %s'' (Some [PStr T]),
                                   CCursorClose]"
    by (auto simp: database_defs tenant_statement_def split: prod.splits sum.splits)
next
  assume c: "Database_connect pg_driver getenv (Database_init (Some T)) wa = (Inr ua, dba, wb)"
  with assms show "pg_tag (dstate wb) = Some T"
    by (auto simp: database_defs pg_driver_def pg_connect_def pg_cursor_def pg_execute_def
          split: prod.splits sum.splits if_splits)
  from c assms show "fst (Database_execute pg_driver dba ''SHOW app.tenant_id'' None wb)
              = Inr [[(''app.tenant_id'', PStr T)]]"
    by (auto simp: database_defs pg_driver_def pg_connect_def pg_cursor_def pg_execute_def
          pg_fetchall_def tenant_statement_def
          split: prod.splits sum.splits if_splits)
qed

text \<open>
  The claim as first stated fails at the empty tenant identifier: open returns, the
  handshake is the only driver call, and the session tag is not set, so that querying it
  raises instead of returning the identifier.
\<close>

theorem connect_empty_tenant_counterexample:
  "fst (Database_connect pg_driver demo_getenv (Database_init (Some [])) (pg_world True)) = Inr ()
   \<and> calls (snd (snd (Database_connect pg_driver demo_getenv (Database_init (Some []))
                        (pg_world True))))
       = [CConnect (conn_params_of demo_getenv)]
   \<and> fst (Database_execute pg_driver
            (fst (snd (Database_connect pg_driver demo_getenv (Database_init (Some []))
                         (pg_world True))))
            ''SHOW app.tenant_id'' None
            (snd (snd (Database_connect pg_driver demo_getenv (Database_init (Some []))
                         (pg_world True)))))
       = Inl (PyExn ''ProgrammingError'' ''unrecognized configuration parameter'')"
  by (simp add: database_defs pg_defs)

theorem connect_sets_tenant_tag_witness:
  "''customer-001'' \<noteq> []
   \<and> Database_connect pg_driver demo_getenv (Database_init (Some ''customer-001'')) (pg_world True)
       = (Inr (), demo_db, demo_session)
   \<and> calls demo_session
       = [CConnect (conn_params_of demo_getenv), CCursor,
          CExecute ''SET app.tenant_id = %s'' (Some [PStr ''customer-001'']), CCursorClose]
   \<and> pg_tag (dstate demo_session) = Some ''customer-001''
   \<and> fst (Database_execute pg_driver demo_db ''SHOW app.tenant_id'' None demo_session)
       = Inr [[(''app.tenant_id'', PStr ''customer-001'')]]"
proof -
  have ne: "''customer-001'' \<noteq> []" by simp
  have "calls (pg_world True) = []"
    by (simp add: pg_world_def)
  with connect_sets_tenant_tag [where T = "''customer-001''" and drv = pg_driver
      and getenv = demo_getenv and w = "pg_world True" and u = "()" and db = demo_db
      and w' = demo_session and wa = "pg_world True" and ua = "()" and dba = demo_db
      and wb = demo_session] demo_connect ne
  show ?thesis by simp
qed

text \<open>
  C10. Opened with the empty string as tenant identifier, \<^verbatim>\<open>connect\<close> behaves as it does
  without a tenant identifier: same outcome, same world, same connection attribute. The
  handshake is its only driver call, so no statement is issued at all, and when the
  handshake succeeds the connection is established.
\<close>

theorem connect_empty_tenant_as_none:
  "Database_connect drv getenv (Database_init (Some [])) w
     = (case Database_connect drv getenv (Database_init None) w of
          (r, db, w') \<Rightarrow> (r, db\<lparr>tenant_id := Some []\<rparr>, w'))
   \<and> calls (snd (snd (Database_connect drv getenv (Database_init (Some [])) w)))
       = calls w @ [CConnect (conn_params_of getenv)]
   \<and> (fst (drv_connect drv (conn_params_of getenv) (dstate w)) = Inr h \<longrightarrow>
        fst (Database_connect drv getenv (Database_init (Some [])) w) = Inr ()
      \<and> connection (fst (snd (Database_connect drv getenv (Database_init (Some [])) w)))
          = Some h)"
proof (intro conjI impI)
  show "Database_connect drv getenv (Database_init (Some [])) w
     = (case Database_connect drv getenv (Database_init None) w of
          (r, db, w') \<Rightarrow> (r, db\<lparr>tenant_id := Some []\<rparr>, w'))"
    by (simp add: database_defs split: prod.splits sum.splits)
  show "calls (snd (snd (Database_connect drv getenv (Database_init (Some [])) w)))
       = calls w @ [CConnect (conn_params_of getenv)]"
    by (simp add: database_defs split: prod.splits sum.splits)
next
  assume h: "fst (drv_connect drv (conn_params_of getenv) (dstate w)) = Inr h"
  then show "fst (Database_connect drv getenv (Database_init (Some [])) w) = Inr ()"
    by (auto simp: database_defs split: prod.splits sum.splits)
  from h show "connection (fst (snd (Database_connect drv getenv (Database_init (Some [])) w)))
          = Some h"
    by (auto simp: database_defs split: prod.splits sum.splits)
qed

theorem connect_empty_tenant_as_none_witness:
  "fst (drv_connect pg_driver (conn_params_of demo_getenv) (dstate (pg_world True))) = Inr 0
   \<and> fst (Database_connect pg_driver demo_getenv (Database_init (Some [])) (pg_world True))
       = Inr ()
   \<and> connection (fst (snd (Database_connect pg_driver demo_getenv (Database_init (Some []))
                              (pg_world True)))) = Some 0
   \<and> calls (snd (snd (Database_connect pg_driver demo_getenv (Database_init (Some []))
                        (pg_world True))))
       = [CConnect (conn_params_of demo_getenv)]"
proof -
  have h: "fst (drv_connect pg_driver (conn_params_of demo_getenv) (dstate (pg_world True)))
             = Inr 0"
    by (simp add: pg_defs)
  have "calls (pg_world True) = []"
    by (simp add: pg_world_def)
  with connect_empty_tenant_as_none [of pg_driver demo_getenv "pg_world True" 0] h
  show ?thesis by (metis append_Nil)
qed

text \<open>
  C4 (as amended). Whenever open fails, the failure line is printed and the exception
  that the failing driver call raised (the handshake, the creation of the cursor, the
  tenant statement or the closing of the cursor) reaches the caller as it is, not as a
  \<^verbatim>\<open>ConnectionError\<close>. When the handshake itself fails, nothing is stored on the object
  and the handshake is the only driver call made.
\<close>

theorem connect_failure_reraised:
  assumes "Database_connect drv getenv self w = (Inl e, self', w')"
  shows "stdout w' = stdout w @ [MsgConnFailed e]
       \<and> (case drv_connect drv (conn_params_of getenv) (dstate w) of
            (Inl e0, d1) \<Rightarrow>
              e = e0 \<and> self' = self \<and> calls w' = calls w @ [CConnect (conn_params_of getenv)]
          | (Inr h, d1) \<Rightarrow>
              (\<exists>t. tenant_id self = Some t \<and> t \<noteq> [] \<and>
                 (case drv_cursor drv h d1 of
                    (Inl e1, d2) \<Rightarrow> e = e1
                  | (Inr c, d2) \<Rightarrow>
                      (case drv_execute drv c tenant_statement (Some [PStr t]) d2 of
                         (r, d3) \<Rightarrow>
                           (case drv_cursor_close drv c d3 of
                              (Inl e3, d4) \<Rightarrow> e = e3
                            | (Inr u, d4) \<Rightarrow> r = Inl e)))))"
  using assms
  by (auto simp: database_defs split: prod.splits sum.splits option.splits if_splits)

text \<open>
  The claim as first stated fails for a tenant identifier that the driver refuses as a
  parameter: the exception that reaches the caller is the driver's \<^verbatim>\<open>ValueError\<close>, and
  the connection made by the handshake is still stored on the object and still open, no
  \<^verbatim>\<open>close\<close> having been called on it.
\<close>

theorem connect_failure_counterexample:
  "fst (Database_connect pg_driver demo_getenv (Database_init (Some [CHR 0x00])) (pg_world True))
     = Inl (PyExn ''ValueError'' ''A string literal cannot contain NUL (0x00) characters.'')
   \<and> connection (fst (snd (Database_connect pg_driver demo_getenv
                              (Database_init (Some [CHR 0x00])) (pg_world True)))) = Some 0
   \<and> pg_open (dstate (snd (snd (Database_connect pg_driver demo_getenv
                              (Database_init (Some [CHR 0x00])) (pg_world True)))))
   \<and> calls (snd (snd (Database_connect pg_driver demo_getenv
                              (Database_init (Some [CHR 0x00])) (pg_world True))))
       = [CConnect (conn_params_of demo_getenv), CCursor,
          CExecute tenant_statement (Some [PStr [CHR 0x00]]), CCursorClose]"
  by (simp add: database_defs pg_defs)

theorem connect_failure_reraised_witness:
  "Database_connect pg_driver demo_getenv (Database_init (Some ''customer-001'')) (pg_world False)
     = (Inl (PyExn ''OperationalError'' ''could not connect to server''),
        Database_init (Some ''customer-001''),
        snd (snd (Database_connect pg_driver demo_getenv
                    (Database_init (Some ''customer-001'')) (pg_world False))))
   \<and> stdout (snd (snd (Database_connect pg_driver demo_getenv
                    (Database_init (Some ''customer-001'')) (pg_world False))))
       = [MsgConnFailed (PyExn ''OperationalError'' ''could not connect to server'')]
   \<and> calls (snd (snd (Database_connect pg_driver demo_getenv
                    (Database_init (Some ''customer-001'')) (pg_world False))))
       = [CConnect (conn_params_of demo_getenv)]"
proof -
  have run: "Database_connect pg_driver demo_getenv (Database_init (Some ''customer-001''))
               (pg_world False)
     = (Inl (PyExn ''OperationalError'' ''could not connect to server''),
        Database_init (Some ''customer-001''),
        snd (snd (Database_connect pg_driver demo_getenv
                    (Database_init (Some ''customer-001'')) (pg_world False))))"
    by (simp add: database_defs pg_defs)
  have hs: "drv_connect pg_driver (conn_params_of demo_getenv) (dstate (pg_world False))
     = (Inl (PyExn ''OperationalError'' ''could not connect to server''),
        dstate (pg_world False))"
    by (simp add: pg_driver_def pg_connect_def pg_world_def)
  have "stdout (pg_world False) = []" "calls (pg_world False) = []"
    by (simp_all add: pg_world_def)
  with connect_failure_reraised [OF run] hs run show ?thesis
    by simp
qed

section \<open>Executing statements\<close>





section \<open>Closing and scoped acquisition\<close>

text \<open>
  C5. Calling \<^verbatim>\<open>close\<close> on a never-opened Connection does nothing and raises nothing.
  On an opened Connection a second \<^verbatim>\<open>close\<close> calls the driver's \<^verbatim>\<open>close\<close> on the
  same connection object again; the driver accepting that (as \<^verbatim>\<open>psycopg2\<close> does), the
  second \<^verbatim>\<open>close\<close> raises nothing.
\<close>

theorem close_unopened_or_repeated:
  "Database_close drv (Database_init t) w = (Inr (), w)
   \<and> (connection self = Some h \<longrightarrow>
        calls (snd (Database_close drv self (snd (Database_close drv self wa))))
          = calls wa @ [CClose, CClose]
      \<and> (fst (drv_close drv h (snd (drv_close drv h (dstate wa)))) = Inr () \<longrightarrow>
          fst (Database_close drv self (snd (Database_close drv self wa))) = Inr ()))"
  by (auto simp: Database_close_def Database_init_def call_drv_def py_print_def
        split: prod.splits sum.splits)

theorem close_unopened_or_repeated_witness:
  "connection demo_db = Some 0
   \<and> fst (drv_close pg_driver 0 (snd (drv_close pg_driver 0 (dstate demo_session)))) = Inr ()
   \<and> Database_close pg_driver (Database_init None) (pg_world True) = (Inr (), pg_world True)
   \<and> fst (Database_close pg_driver demo_db (snd (Database_close pg_driver demo_db demo_session)))
       = Inr ()
   \<and> calls (snd (Database_close pg_driver demo_db
                   (snd (Database_close pg_driver demo_db demo_session))))
       = calls demo_session @ [CClose, CClose]"
proof -
  have c: "connection demo_db = Some 0"
    by (simp add: demo_db_def)
  have d: "fst (drv_close pg_driver 0 (snd (drv_close pg_driver 0 (dstate demo_session))))
             = Inr ()"
    by (simp add: pg_driver_def)
  from close_unopened_or_repeated [where drv = pg_driver and t = None and w = "pg_world True"
      and self = demo_db and h = 0 and wa = demo_session] c d
  show ?thesis by simp
qed

text \<open>
  C2 (as amended). For every use of the Connection under scoped acquisition
  (\<^verbatim>\<open>with Database(tenant) as db:\<close>) in which the acquisition itself returns,
  \<^verbatim>\<open>close\<close> is invoked on every exit of the body, whether the body returns a value or
  raises: whatever the outcome \<open>r\<close> of the body, \<^verbatim>\<open>close\<close> runs on the object as the
  body has left it. The connection the object then holds is released, the driver's
  \<^verbatim>\<open>close\<close> on it being the last driver call, and the outcome of the whole is \<open>r\<close>
  unless that call raises; an object left without a connection is left as it is.
\<close>

theorem with_Database_closes_on_every_exit:
  assumes "Database_enter drv getenv (Database_init tenant) w = (Inr u, db, w1)"
      and "body db w1 = (r, db2, w2)"
  shows "(\<exists>h. connection db = Some h)
       \<and> snd (with_Database drv getenv tenant body w) = snd (Database_close drv db2 w2)
       \<and> (connection db2 = Some h2 \<longrightarrow>
            calls (snd (with_Database drv getenv tenant body w)) = calls w2 @ [CClose]
          \<and> dstate (snd (with_Database drv getenv tenant body w))
              = snd (drv_close drv h2 (dstate w2))
          \<and> (fst (drv_close drv h2 (dstate w2)) = Inr () \<longrightarrow>
               fst (with_Database drv getenv tenant body w) = r))
       \<and> (connection db2 = None \<longrightarrow> with_Database drv getenv tenant body w = (r, w2))"
proof (intro conjI impI)
  from assms(1) show "\<exists>h. connection db = Some h"
    by (auto simp: database_defs split: prod.splits sum.splits option.splits if_splits)
  from assms show "snd (with_Database drv getenv tenant body w) = snd (Database_close drv db2 w2)"
    by (simp add: with_Database_def Database_exit_def split: prod.splits sum.splits)
next
  assume h2: "connection db2 = Some h2"
  with assms show "calls (snd (with_Database drv getenv tenant body w)) = calls w2 @ [CClose]"
    by (simp add: with_Database_def Database_exit_def Database_close_def call_drv_def
          py_print_def split: prod.splits sum.splits)
  from assms h2 show "dstate (snd (with_Database drv getenv tenant body w))
              = snd (drv_close drv h2 (dstate w2))"
    by (simp add: with_Database_def Database_exit_def Database_close_def call_drv_def
          py_print_def split: prod.splits sum.splits)
  assume "fst (drv_close drv h2 (dstate w2)) = Inr ()"
  with assms h2 show "fst (with_Database drv getenv tenant body w) = r"
    by (auto simp: with_Database_def Database_exit_def Database_close_def call_drv_def
          py_print_def split: prod.splits sum.splits)
next
  assume "connection db2 = None"
  with assms show "with_Database drv getenv tenant body w = (r, w2)"
    by (simp add: with_Database_def Database_exit_def Database_close_def)
qed

text \<open>
  The claim as first stated fails when the acquisition itself fails after the handshake:
  for a tenant identifier that the driver refuses as a parameter, \<^verbatim>\<open>__enter__\<close> raises,
  the body and \<^verbatim>\<open>__exit__\<close> never run, no \<^verbatim>\<open>close\<close> is called, and the connection
  made by the handshake stays open.
\<close>

theorem with_Database_enter_failure_counterexample:
  "fst (with_Database pg_driver demo_getenv (Some [CHR 0x00])
          (query_body pg_driver ''SHOW app.tenant_id'' None) (pg_world True))
     = Inl (PyExn ''ValueError'' ''A string literal cannot contain NUL (0x00) characters.'')
   \<and> calls (snd (with_Database pg_driver demo_getenv (Some [CHR 0x00])
          (query_body pg_driver ''SHOW app.tenant_id'' None) (pg_world True)))
       = [CConnect (conn_params_of demo_getenv), CCursor,
          CExecute tenant_statement (Some [PStr [CHR 0x00]]), CCursorClose]
   \<and> pg_open (dstate (snd (with_Database pg_driver demo_getenv (Some [CHR 0x00])
          (query_body pg_driver ''SHOW app.tenant_id'' None) (pg_world True))))"
  by (simp add: database_defs pg_defs)

theorem with_Database_closes_on_every_exit_witness:
  "Database_enter pg_driver demo_getenv (Database_init (Some ''customer-001'')) (pg_world True)
     = (Inr (), demo_db, demo_session)
   \<and> fst (with_Database pg_driver demo_getenv (Some ''customer-001'')
            (query_body pg_driver ''SHOW app.tenant_id'' None) (pg_world True))
       = Inr [[(''app.tenant_id'', PStr ''customer-001'')]]
   \<and> last (calls (snd (with_Database pg_driver demo_getenv (Some ''customer-001'')
            (query_body pg_driver ''SHOW app.tenant_id'' None) (pg_world True))))
       = CClose
   \<and> \<not> pg_open (dstate (snd (with_Database pg_driver demo_getenv (Some ''customer-001'')
            (query_body pg_driver ''SHOW app.tenant_id'' None) (pg_world True))))
   \<and> fst (with_Database pg_driver demo_getenv (Some ''customer-001'')
            (query_body pg_driver ''SELEC 1'' None) (pg_world True))
       = Inl (PyExn ''ProgrammingError'' ''syntax error'')
   \<and> last (calls (snd (with_Database pg_driver demo_getenv (Some ''customer-001'')
            (query_body pg_driver ''SELEC 1'' None) (pg_world True))))
       = CClose
   \<and> \<not> pg_open (dstate (snd (with_Database pg_driver demo_getenv (Some ''customer-001'')
            (query_body pg_driver ''SELEC 1'' None) (pg_world True))))"
proof -
  have e: "Database_enter pg_driver demo_getenv (Database_init (Some ''customer-001''))
             (pg_world True) = (Inr (), demo_db, demo_session)"
    by (simp add: Database_enter_def demo_connect)
  have b1: "query_body pg_driver ''SHOW app.tenant_id'' None demo_db demo_session
      = (Inr [[(''app.tenant_id'', PStr ''customer-001'')]], demo_db,
         snd (Database_execute pg_driver demo_db ''SHOW app.tenant_id'' None demo_session))"
    by (simp add: demo_db_def demo_session_eq database_defs pg_defs)
  have b2: "query_body pg_driver ''SELEC 1'' None demo_db demo_session
      = (Inl (PyExn ''ProgrammingError'' ''syntax error''), demo_db,
         snd (Database_execute pg_driver demo_db ''SELEC 1'' None demo_session))"
    by (simp add: demo_db_def demo_session_eq database_defs pg_defs)
  have c: "connection demo_db = Some 0"
    by (simp add: demo_db_def)
  have ok: "fst (drv_close pg_driver h d) = Inr ()" for h d
    by (simp add: pg_driver_def)
  have cl: "\<not> pg_open (snd (drv_close pg_driver h d))" for h d
    by (simp add: pg_driver_def)
  from with_Database_closes_on_every_exit
      [where body = "query_body pg_driver ''SHOW app.tenant_id'' None" and ?h2.0 = 0, OF e b1]
    c ok cl
  have n: "fst (with_Database pg_driver demo_getenv (Some ''customer-001'')
            (query_body pg_driver ''SHOW app.tenant_id'' None) (pg_world True))
       = Inr [[(''app.tenant_id'', PStr ''customer-001'')]]
     \<and> last (calls (snd (with_Database pg_driver demo_getenv (Some ''customer-001'')
            (query_body pg_driver ''SHOW app.tenant_id'' None) (pg_world True))))
       = CClose
     \<and> \<not> pg_open (dstate (snd (with_Database pg_driver demo_getenv (Some ''customer-001'')
            (query_body pg_driver ''SHOW app.tenant_id'' None) (pg_world True))))"
    by auto
  from with_Database_closes_on_every_exit
      [where body = "query_body pg_driver ''SELEC 1'' None" and ?h2.0 = 0, OF e b2] c ok cl
  have x: "fst (with_Database pg_driver demo_getenv (Some ''customer-001'')
            (query_body pg_driver ''SELEC 1'' None) (pg_world True))
       = Inl (PyExn ''ProgrammingError'' ''syntax error'')
     \<and> last (calls (snd (with_Database pg_driver demo_getenv (Some ''customer-001'')
            (query_body pg_driver ''SELEC 1'' None) (pg_world True))))
       = CClose
     \<and> \<not> pg_open (dstate (snd (with_Database pg_driver demo_getenv (Some ''customer-001'')
            (query_body pg_driver ''SELEC 1'' None) (pg_world True))))"
    by auto
  from e n x show ?thesis by simp
qed

section \<open>The message relay\<close>

text \<open>
  C6 (as amended). For every message list, optional system instruction and token bound
  (1024 by default), \<^verbatim>\<open>send_message\<close> submits one request whose envelope holds exactly
  the protocol version tag, the token bound under \<^verbatim>\<open>max_tokens\<close>, the message sequence
  under \<^verbatim>\<open>messages\<close>, and a \<^verbatim>\<open>system\<close> entry if and only if a system instruction is
  given and is not the empty string; the entry then holds the instruction.
\<close>

theorem request_body_fields:
  "map fst (request_body messages system max_tokens)
     = [''anthropic_version'', ''max_tokens'', ''messages'']
       @ (case system of None \<Rightarrow> [] | Some s \<Rightarrow> if s = [] then [] else [''system''])
   \<and> map_of (request_body messages system max_tokens) ''anthropic_version''
       = Some (JStr ''bedrock-2023-05-31'')
   \<and> map_of (request_body messages system max_tokens) ''max_tokens'' = Some (JNum max_tokens)
   \<and> map_of (request_body messages system max_tokens) ''messages''
       = Some (JArr (map message_json messages))
   \<and> map_of (request_body messages system max_tokens) ''system''
       = (case system of None \<Rightarrow> None | Some s \<Rightarrow> if s = [] then None else Some (JStr s))
   \<and> requests (snd (ClaudeClient_send_message bk self messages system max_tokens w))
       = requests w
         @ [(model_id self, json_dumps bk (JObj (request_body messages system max_tokens)))]
   \<and> default_max_tokens = 1024"
proof (intro conjI)
  show "map fst (request_body messages system max_tokens)
     = [''anthropic_version'', ''max_tokens'', ''messages'']
       @ (case system of None \<Rightarrow> [] | Some s \<Rightarrow> if s = [] then [] else [''system''])"
    by (simp add: request_body_def split: option.splits)
  show "map_of (request_body messages system max_tokens) ''anthropic_version''
       = Some (JStr ''bedrock-2023-05-31'')"
    by (simp add: request_body_def)
  show "map_of (request_body messages system max_tokens) ''max_tokens'' = Some (JNum max_tokens)"
    by (simp add: request_body_def)
  show "map_of (request_body messages system max_tokens) ''messages''
       = Some (JArr (map message_json messages))"
    by (simp add: request_body_def)
  show "map_of (request_body messages system max_tokens) ''system''
       = (case system of None \<Rightarrow> None | Some s \<Rightarrow> if s = [] then None else Some (JStr s))"
    by (simp add: request_body_def split: option.splits)
  show "requests (snd (ClaudeClient_send_message bk self messages system max_tokens w))
       = requests w
         @ [(model_id self, json_dumps bk (JObj (request_body messages system max_tokens)))]"
    by (simp add: ClaudeClient_send_message_def send_message_body_def call_invoke_def
          split: prod.splits sum.splits)
  show "default_max_tokens = 1024"
    by (simp add: default_max_tokens_def)
qed

text \<open>
  The claim as first stated fails for the empty system instruction: it is given, and the
  envelope has no \<^verbatim>\<open>system\<close> entry.
\<close>

theorem request_body_empty_system_counterexample:
  "map fst (request_body [[(''role'', ''user''), (''content'', ''ping'')]] (Some []) 1024)
     = [''anthropic_version'', ''max_tokens'', ''messages'']
   \<and> map_of (request_body [[(''role'', ''user''), (''content'', ''ping'')]] (Some []) 1024)
        ''system'' = None"
  by (simp add: request_body_def)

text \<open>
  C7 (as amended). For every relay call, \<^verbatim>\<open>send_message\<close> either returns the
  \<^verbatim>\<open>text\<close> entry of the first content block of the response body, or raises; what it
  raises is the exception of the transport call, of the decoding or of the subscripting,
  re-raised as it is and not as a \<^verbatim>\<open>RelayError\<close>. A value is returned exactly when
  the body has the content-block shape, so no value, and no empty string, is returned on
  a failure.
\<close>

theorem send_message_text_or_reraise:
  "fst (ClaudeClient_send_message bk self messages system max_tokens w)
     = (case fst (invoke_model bk (model_id self)
                    (json_dumps bk (JObj (request_body messages system max_tokens)))
                    (rstate w)) of
          Inl e \<Rightarrow> Inl e
        | Inr raw \<Rightarrow>
            (case json_loads bk raw of
               Inl e \<Rightarrow> Inl e
             | Inr response_body \<Rightarrow> extract_text response_body))
   \<and> (extract_text body = Inr v \<longleftrightarrow>
        (\<exists>kvs bkvs blocks. body = JObj kvs
           \<and> map_of kvs ''content'' = Some (JArr (JObj bkvs # blocks))
           \<and> map_of bkvs ''text'' = Some v))"
proof
  show "fst (ClaudeClient_send_message bk self messages system max_tokens w)
     = (case fst (invoke_model bk (model_id self)
                    (json_dumps bk (JObj (request_body messages system max_tokens)))
                    (rstate w)) of
          Inl e \<Rightarrow> Inl e
        | Inr raw \<Rightarrow>
            (case json_loads bk raw of
               Inl e \<Rightarrow> Inl e
             | Inr response_body \<Rightarrow> extract_text response_body))"
    by (auto simp: ClaudeClient_send_message_def send_message_body_def call_invoke_def
          split: prod.splits sum.splits)
  show "extract_text body = Inr v \<longleftrightarrow>
        (\<exists>kvs bkvs blocks. body = JObj kvs
           \<and> map_of kvs ''content'' = Some (JArr (JObj bkvs # blocks))
           \<and> map_of bkvs ''text'' = Some v)"
    by (rule extract_text_shape)
qed

text \<open>
  The claim as first stated fails for a response body without a \<^verbatim>\<open>content\<close> entry:
  the caller receives the \<^verbatim>\<open>KeyError\<close> of the subscript.
\<close>

theorem send_message_keyerror_counterexample:
  "fst (ClaudeClient_send_message stub_bedrock (ClaudeClient_init demo_getenv)
          [[(''role'', ''user''), (''content'', ''ping'')]] None 1024
          (stub_world (Inr (JObj []))))
     = Inl (PyExn ''KeyError'' ''content'')"
  by (simp add: relay_defs stub_bedrock_def stub_world_def extract_text_def)

theorem send_message_text_or_reraise_witness:
  "(\<exists>kvs bkvs blocks. demo_response = JObj kvs
       \<and> map_of kvs ''content'' = Some (JArr (JObj bkvs # blocks))
       \<and> map_of bkvs ''text'' = Some (JStr ''OK''))
   \<and> fst (ClaudeClient_send_message stub_bedrock (ClaudeClient_init demo_getenv)
            [[(''role'', ''user''), (''content'', ''ping'')]] (Some ''Reply with OK'') 1024
            (stub_world (Inr demo_response)))
       = Inr (JStr ''OK'')
   \<and> fst (ClaudeClient_send_message stub_bedrock (ClaudeClient_init demo_getenv)
            [[(''role'', ''user''), (''content'', ''ping'')]] (Some ''Reply with OK'') 1024
            (stub_world (Inl (PyExn ''ClientError'' ''ThrottlingException''))))
       = Inl (PyExn ''ClientError'' ''ThrottlingException'')"
proof -
  have shape: "\<exists>kvs bkvs blocks. demo_response = JObj kvs
       \<and> map_of kvs ''content'' = Some (JArr (JObj bkvs # blocks))
       \<and> map_of bkvs ''text'' = Some (JStr ''OK'')"
    by (simp add: demo_response_def)
  from send_message_text_or_reraise [where body = demo_response and v = "JStr ''OK''"] shape
  have t: "extract_text demo_response = Inr (JStr ''OK'')"
    by blast
  from send_message_text_or_reraise [where bk = stub_bedrock
      and self = "ClaudeClient_init demo_getenv"
      and messages = "[[(''role'', ''user''), (''content'', ''ping'')]]"
      and system = "Some ''Reply with OK''" and max_tokens = 1024
      and w = "stub_world (Inr demo_response)"] t
  have ok: "fst (ClaudeClient_send_message stub_bedrock (ClaudeClient_init demo_getenv)
            [[(''role'', ''user''), (''content'', ''ping'')]] (Some ''Reply with OK'') 1024
            (stub_world (Inr demo_response)))
       = Inr (JStr ''OK'')"
    by (simp add: stub_bedrock_def stub_world_def)
  from send_message_text_or_reraise [where bk = stub_bedrock
      and self = "ClaudeClient_init demo_getenv"
      and messages = "[[(''role'', ''user''), (''content'', ''ping'')]]"
      and system = "Some ''Reply with OK''" and max_tokens = 1024
      and w = "stub_world (Inl (PyExn ''ClientError'' ''ThrottlingException''))"]
  have err: "fst (ClaudeClient_send_message stub_bedrock (ClaudeClient_init demo_getenv)
            [[(''role'', ''user''), (''content'', ''ping'')]] (Some ''Reply with OK'') 1024
            (stub_world (Inl (PyExn ''ClientError'' ''ThrottlingException''))))
       = Inl (PyExn ''ClientError'' ''ThrottlingException'')"
    by (simp add: stub_bedrock_def stub_world_def)
  from shape ok err show ?thesis by blast
qed

text \<open>
  C8. \<^verbatim>\<open>chat\<close> is \<^verbatim>\<open>send_message\<close> applied to the single-turn sequence holding the
  user text with role \<^verbatim>\<open>user\<close>, with the same system instruction and the default token
  bound: the method as the source has it and the form the specification words agree.
  The sequence is not empty, and the one request \<^verbatim>\<open>chat\<close> submits carries it under
  \<^verbatim>\<open>messages\<close>.
\<close>

theorem chat_delegates_to_send_message:
  "ClaudeClient_chat bk self user_text system w = chat_spec bk self user_text system w
   \<and> single_turn user_text \<noteq> []
   \<and> requests (snd (ClaudeClient_chat bk self user_text system w))
       = requests w
         @ [(model_id self,
             json_dumps bk (JObj (request_body (single_turn user_text) system 1024)))]
   \<and> map_of (request_body (single_turn user_text) system 1024) ''messages''
       = Some (JArr [JObj [(''role'', JStr ''user''), (''content'', JStr user_text)]])"
proof (intro conjI)
  show chat: "ClaudeClient_chat bk self user_text system w = chat_spec bk self user_text system w"
    by (simp add: ClaudeClient_chat_def chat_spec_def single_turn_def default_max_tokens_def)
  show "single_turn user_text \<noteq> []"
    by (simp add: single_turn_def)
  show "requests (snd (ClaudeClient_chat bk self user_text system w))
       = requests w
         @ [(model_id self,
             json_dumps bk (JObj (request_body (single_turn user_text) system 1024)))]"
    unfolding chat chat_spec_def
    by (simp add: ClaudeClient_send_message_def send_message_body_def call_invoke_def
          split: prod.splits sum.splits)
  show "map_of (request_body (single_turn user_text) system 1024) ''messages''
       = Some (JArr [JObj [(''role'', JStr ''user''), (''content'', JStr user_text)]])"
    by (simp add: request_body_def single_turn_def message_json_def)
qed

end
